theory Spec2Isabelle
  imports Complex_Main
begin

section \<open>JavaScript numbers under exact arithmetic\<close>

text \<open>
  The statistical engine computes with the JavaScript type \<^verbatim>\<open>number\<close>. The embedding keeps
  the special values of that type and the rules by which the operators produce them
  (division by zero, the logarithm of zero, comparisons with NaN), and takes every finite
  operation to be exact: a finite value is a real, so binary64 rounding, overflow and
  underflow are outside the model. Every theorem below is a statement about the code
  evaluated in this exact arithmetic.

  The model has a single zero, and a zero divisor is read as \<open>+0\<close>. On a table of counts
  the only divisors of the engine that can vanish are the two bounds of the risk
  difference, each the sum or the difference of a nonzero number and another number; IEEE
  arithmetic gives no \<open>-0\<close> there.
\<close>

datatype number = Num real | PosInfinity | NegInfinity | NaN

instantiation number :: "{plus, minus, uminus, times, inverse, ord}"
begin

fun uminus_number :: "number \<Rightarrow> number" where
  "uminus_number (Num x) = Num (- x)"
| "uminus_number PosInfinity = NegInfinity"
| "uminus_number NegInfinity = PosInfinity"
| "uminus_number NaN = NaN"

fun plus_number :: "number \<Rightarrow> number \<Rightarrow> number" where
  "plus_number (Num x) (Num y) = Num (x + y)"
| "plus_number NaN y = NaN"
| "plus_number x NaN = NaN"
| "plus_number PosInfinity NegInfinity = NaN"
| "plus_number NegInfinity PosInfinity = NaN"
| "plus_number PosInfinity y = PosInfinity"
| "plus_number x PosInfinity = PosInfinity"
| "plus_number NegInfinity y = NegInfinity"
| "plus_number x NegInfinity = NegInfinity"

definition minus_number :: "number \<Rightarrow> number \<Rightarrow> number" where
  "minus_number x y = x + (- y)"

fun times_number :: "number \<Rightarrow> number \<Rightarrow> number" where
  "times_number (Num x) (Num y) = Num (x * y)"
| "times_number NaN y = NaN"
| "times_number x NaN = NaN"
| "times_number (Num x) y =
     (if x = 0 then NaN else if 0 < x then y else - y)"
| "times_number x (Num y) =
     (if y = 0 then NaN else if 0 < y then x else - x)"
| "times_number PosInfinity y = y"
| "times_number NegInfinity y = - y"

fun divide_number :: "number \<Rightarrow> number \<Rightarrow> number" where
  "divide_number (Num x) (Num y) =
     (if y = 0 then (if x = 0 then NaN else if 0 < x then PosInfinity else NegInfinity)
      else Num (x / y))"
| "divide_number NaN y = NaN"
| "divide_number x NaN = NaN"
| "divide_number (Num x) y = Num 0"
| "divide_number x (Num y) = (if 0 \<le> y then x else - x)"
| "divide_number x y = NaN"

definition inverse_number :: "number \<Rightarrow> number" where
  "inverse_number x = Num 1 div x"

fun less_number :: "number \<Rightarrow> number \<Rightarrow> bool" where
  "less_number (Num x) (Num y) = (x < y)"
| "less_number NaN y = False"
| "less_number x NaN = False"
| "less_number x NegInfinity = False"
| "less_number PosInfinity y = False"
| "less_number x y = True"

fun less_eq_number :: "number \<Rightarrow> number \<Rightarrow> bool" where
  "less_eq_number (Num x) (Num y) = (x \<le> y)"
| "less_eq_number NaN y = False"
| "less_eq_number x NaN = False"
| "less_eq_number NegInfinity y = True"
| "less_eq_number x PosInfinity = True"
| "less_eq_number x y = False"

instance ..

end

text \<open>
  Strict equality \<^verbatim>\<open>===\<close> on numbers (NaN equals nothing, itself included; the source's
  \<^verbatim>\<open>!==\<close> is its negation), the global \<^verbatim>\<open>isNaN\<close>, and the four \<^verbatim>\<open>Math\<close> functions the
  engine calls.
\<close>

fun strict_eq :: "number \<Rightarrow> number \<Rightarrow> bool" where
  "strict_eq (Num x) (Num y) = (x = y)"
| "strict_eq PosInfinity PosInfinity = True"
| "strict_eq NegInfinity NegInfinity = True"
| "strict_eq x y = False"

fun isNaN :: "number \<Rightarrow> bool" where
  "isNaN NaN = True"
| "isNaN x = False"

fun Math_abs :: "number \<Rightarrow> number" where
  "Math_abs (Num x) = Num \<bar>x\<bar>"
| "Math_abs PosInfinity = PosInfinity"
| "Math_abs NegInfinity = PosInfinity"
| "Math_abs NaN = NaN"

fun Math_sqrt :: "number \<Rightarrow> number" where
  "Math_sqrt (Num x) = (if x < 0 then NaN else Num (sqrt x))"
| "Math_sqrt PosInfinity = PosInfinity"
| "Math_sqrt NegInfinity = NaN"
| "Math_sqrt NaN = NaN"

fun Math_log :: "number \<Rightarrow> number" where
  "Math_log (Num x) = (if x < 0 then NaN else if x = 0 then NegInfinity else Num (ln x))"
| "Math_log PosInfinity = PosInfinity"
| "Math_log NegInfinity = NaN"
| "Math_log NaN = NaN"

fun Math_exp :: "number \<Rightarrow> number" where
  "Math_exp (Num x) = Num (exp x)"
| "Math_exp PosInfinity = PosInfinity"
| "Math_exp NegInfinity = Num 0"
| "Math_exp NaN = NaN"

text \<open>
  \<^verbatim>\<open>Number.prototype.toFixed\<close>, following the ECMAScript algorithm: a value that is not finite
  prints as its name; a negative value prints its sign and then its magnitude; \<open>n\<close> is the
  integer nearest to \<open>x * 10 ^ f\<close>, the larger one on a tie; its decimal digits are padded
  with zeros on the left up to \<open>f + 1\<close> characters, and the point is set before the last
  \<open>f\<close> of them. For a magnitude of \<open>10 ^ 21\<close> and more ECMAScript switches to the exponent
  notation of \<^verbatim>\<open>Number::toString\<close>, which this definition does not do; lemma
  \<open>calculatePValueFromZ_magnitude\<close> shows that the value \<^verbatim>\<open>calculatePValueFromZ\<close> prints
  has a magnitude below 5.
\<close>

fun digits :: "nat \<Rightarrow> string" where
  "digits n =
     (if n < 10 then [''0123456789'' ! n]
      else digits (n div 10) @ [''0123456789'' ! (n mod 10)])"

declare digits.simps [simp del]

definition toFixed :: "nat \<Rightarrow> number \<Rightarrow> string" where
  "toFixed f x =
     (case x of
        NaN \<Rightarrow> ''NaN''
      | PosInfinity \<Rightarrow> ''Infinity''
      | NegInfinity \<Rightarrow> ''-Infinity''
      | Num r \<Rightarrow>
          (let s = (if r < 0 then ''-'' else []);
               r = (if r < 0 then - r else r);
               n = nat \<lfloor>r * 10 ^ f + 1 / 2\<rfloor>;
               m = digits n;
               m = (if f = 0 then m
                    else
                      (let k = length m;
                           m = (if k \<le> f then replicate (f + 1 - k) (CHR ''0'') @ m else m);
                           k = (if k \<le> f then f + 1 else k)
                       in take (k - f) m @ ''.'' @ drop (k - f) m))
           in s @ m))"

section \<open>The normal approximation and the p-value\<close>

text \<open>
  \<^verbatim>\<open>normalCDF\<close> (part_002, lines 93 to 110) and \<^verbatim>\<open>calculatePValueFromZ\<close> (lines 113 to 117),
  statement by statement. In the source \<^verbatim>\<open>-z * z\<close> negates \<open>z\<close> before multiplying.
\<close>

definition normalCDF :: "number \<Rightarrow> number" where
  "normalCDF x =
     (let p = Num 0.3275911;
          a1 = Num 0.254829592;
          a2 = Num (- 0.284496736);
          a3 = Num 1.421413741;
          a4 = Num (- 1.453152027);
          a5 = Num 1.061405429;
          z = x / Math_sqrt (Num 2);
          sign = (if z \<ge> Num 0 then Num 1 else Num (- 1));
          t = Num 1 / (Num 1 + p * Math_abs z);
          erf = Num 1 - (((((a5 * t + a4) * t) + a3) * t + a2) * t + a1) * t * Math_exp (- z * z);
          cdf = Num 0.5 * (Num 1 + sign * erf)
      in cdf)"

definition calculatePValueFromZ :: "number \<Rightarrow> string" where
  "calculatePValueFromZ z =
     (let absZ = Math_abs z;
          p = Num 2 * (Num 1 - normalCDF absZ)
      in if p < Num 0.0001 then ''<0.0001'' else toFixed 4 p)"

section \<open>The data model\<close>

text \<open>
  The study design and the study goal are string unions of the source (declared in
  \<^verbatim>\<open>i18n.ts\<close>; the five designs are listed in the repository's documentation).
  \<^verbatim>\<open>Results\<close> is the interface of \<^verbatim>\<open>types.ts\<close>: every field is an object or null, here an
  option. The fields \<^verbatim>\<open>value\<close>, \<^verbatim>\<open>lower\<close>, \<^verbatim>\<open>upper\<close> and \<^verbatim>\<open>type\<close> occur in several of the
  object types and carry the object's name as a prefix; an object with the single field
  \<^verbatim>\<open>value\<close> is its number. The field \<^verbatim>\<open>power\<close> is written \<open>power'\<close>.
\<close>

datatype StudyDesign = Rct | NonRct | CohortProspective | CohortRetrospective | CaseControl

datatype StudyGoal = Desirable | Undesirable

datatype NntType = Benefit | Harm

record RiskDifference =
  rd_value :: number
  rd_lower :: number
  rd_upper :: number

record RatioEstimate =
  ratio_value :: number
  ratio_lower :: number
  ratio_upper :: number
  pValue :: string
  zStat :: number

record ImpactMeasure =
  label :: string
  impact_value :: number

record ImpactMeasures =
  absolute :: ImpactMeasure
  relative :: ImpactMeasure

record Nnt =
  nnt_value :: number
  nnt_type :: NntType
  nnt_lower :: number
  nnt_upper :: number

record Results =
  absoluteRiskExposed :: "number option"
  absoluteRiskControl :: "number option"
  riskDifference :: "RiskDifference option"
  relativeRisk :: "RatioEstimate option"
  oddsRatio :: "RatioEstimate option"
  impactMeasures :: "ImpactMeasures option"
  nnt :: "Nnt option"
  power' :: "number option"
  type1Error :: "number option"
  type2Error :: "number option"

text \<open>The three messages the handler can pass to \<^verbatim>\<open>setError\<close>.\<close>

datatype Error = ErrorStudyGoal | ErrorStudyDesign | ErrorInvalidNumber string

section \<open>The metric engine: \<^verbatim>\<open>handleCalculate\<close>\<close>

text \<open>
  The engine is the body of the event handler \<^verbatim>\<open>handleCalculate\<close> (part_002, lines 493 to
  700). The handler is one function; the embedding follows its blocks in the source's
  order, one definition for each block that assigns a field of \<^verbatim>\<open>newResults\<close>, with the
  source's local names. The arguments \<open>a b c d\<close> are the entries of \<^verbatim>\<open>values\<close>, the results of
  \<^verbatim>\<open>parseInt\<close> on the four inputs.

  \<^verbatim>\<open>corrected\<close> (lines 526 to 531) replaces a zero cell by 0.5.
\<close>

definition corrected :: "number \<Rightarrow> number" where
  "corrected v = (if strict_eq v (Num 0) then Num 0.5 else v)"

text \<open>Impact measures, lines 570 to 597.\<close>

definition handleCalculate_impactMeasures ::
  "StudyGoal \<Rightarrow> number \<Rightarrow> number \<Rightarrow> ImpactMeasures option" where
  "handleCalculate_impactMeasures studyGoal riskControl rd =
     (if riskControl > Num 0 \<and> \<not> strict_eq rd (Num 0) then
        (let absoluteValue = Math_abs rd;
             relativeValue = absoluteValue / riskControl;
             (absoluteLabel, relativeLabel) =
               (if studyGoal = Undesirable then
                  (if rd > Num 0 then
                     (''Absolute Risk Increase (ARI)'', ''Relative Risk Increase (RRI)'')
                   else
                     (''Absolute Risk Reduction (ARR)'', ''Relative Risk Reduction (RRR)''))
                else
                  (if rd > Num 0 then
                     (''Absolute Benefit Increase (ABI)'', ''Relative Benefit Increase (RBI)'')
                   else
                     (''Absolute Benefit Reduction (ABR)'', ''Relative Benefit Reduction (RBR)'')))
         in Some \<lparr>absolute = \<lparr>label = absoluteLabel, impact_value = absoluteValue\<rparr>,
                  relative = \<lparr>label = relativeLabel, impact_value = relativeValue\<rparr>\<rparr>)
      else None)"

text \<open>Relative risk, lines 599 to 611.\<close>

definition handleCalculate_relativeRisk ::
  "number \<Rightarrow> number \<Rightarrow> number \<Rightarrow> number \<Rightarrow> number \<Rightarrow> number \<Rightarrow> RatioEstimate option" where
  "handleCalculate_relativeRisk riskExposed riskControl riskExposed_c riskControl_c ca cc =
     (if riskControl > Num 0 \<and> riskExposed \<ge> Num 0 then
        (let rr = (if strict_eq riskExposed (Num 0) then Num 0 else riskExposed / riskControl);
             ln_rr = Math_log rr;
             se_ln_rr = Math_sqrt ((Num 1 - riskExposed_c) / ca + (Num 1 - riskControl_c) / cc);
             zStat = ln_rr / se_ln_rr
         in Some \<lparr>ratio_value = rr,
                  ratio_lower = Math_exp (ln_rr - Num 1.96 * se_ln_rr),
                  ratio_upper = Math_exp (ln_rr + Num 1.96 * se_ln_rr),
                  pValue = calculatePValueFromZ zStat,
                  zStat = zStat\<rparr>)
      else None)"

text \<open>
  NNT/NNH, lines 613 to 632. The bounds read \<^verbatim>\<open>newResults.riskDifference\<close>, assigned at line
  568 and passed here as \<open>riskDifference'\<close>.
\<close>

definition handleCalculate_nnt :: "StudyGoal \<Rightarrow> number \<Rightarrow> RiskDifference \<Rightarrow> Nnt option" where
  "handleCalculate_nnt studyGoal rd riskDifference' =
     (if \<not> strict_eq rd (Num 0) then
        (let nntType =
               (if (studyGoal = Undesirable \<and> rd < Num 0) \<or> (studyGoal = Desirable \<and> rd > Num 0)
                then Benefit else Harm)
         in Some \<lparr>nnt_value = Num 1 / Math_abs rd,
                  nnt_type = nntType,
                  nnt_lower = Num 1 / rd_upper riskDifference',
                  nnt_upper = Num 1 / rd_lower riskDifference'\<rparr>)
      else None)"

text \<open>
  Post-hoc power, lines 634 to 679. \<open>p_pooled\<close> (line 638) and \<open>se_alt_variance\<close> (line 644)
  are the source's locals, as functions of the locals they are computed from;
  \<open>handleCalculate_power_pooled\<close> is the branch taken when \<open>0 < p_pooled < 1\<close> (lines 641 to
  667). Each function returns the triple assigned to \<^verbatim>\<open>power\<close>, \<^verbatim>\<open>type1Error\<close> and
  \<^verbatim>\<open>type2Error\<close>.
\<close>

definition p_pooled :: "number \<Rightarrow> number \<Rightarrow> number \<Rightarrow> number \<Rightarrow> number" where
  "p_pooled a c exposedTotal controlTotal = (a + c) / (exposedTotal + controlTotal)"

definition se_alt_variance :: "number \<Rightarrow> number \<Rightarrow> number \<Rightarrow> number \<Rightarrow> number" where
  "se_alt_variance riskExposed riskControl exposedTotal controlTotal =
     (riskExposed * (Num 1 - riskExposed) / exposedTotal)
       + (riskControl * (Num 1 - riskControl) / controlTotal)"

definition handleCalculate_power_pooled ::
  "number \<Rightarrow> number \<Rightarrow> number \<Rightarrow> number \<Rightarrow> number \<Rightarrow> number
     \<Rightarrow> number option \<times> number option \<times> number option" where
  "handleCalculate_power_pooled a c exposedTotal controlTotal riskExposed riskControl =
     (let alpha = Num 0.05;
          z_alpha_half = Num 1.96;
          p_pooled' = p_pooled a c exposedTotal controlTotal;
          se_null = Math_sqrt (p_pooled' * (Num 1 - p_pooled')
                               * (Num 1 / exposedTotal + Num 1 / controlTotal));
          critical_diff = z_alpha_half * se_null;
          se_alt_variance' = se_alt_variance riskExposed riskControl exposedTotal controlTotal
      in if se_alt_variance' > Num 0 then
           (let se_alt = Math_sqrt se_alt_variance';
                observed_diff = riskExposed - riskControl;
                z_for_upper_tail = (critical_diff - observed_diff) / se_alt;
                z_for_lower_tail = (- critical_diff - observed_diff) / se_alt;
                power = (Num 1 - normalCDF z_for_upper_tail) + normalCDF z_for_lower_tail;
                beta = Num 1 - power
            in (Some power, Some alpha, Some beta))
         else (None, Some alpha, None))"

definition handleCalculate_power ::
  "number \<Rightarrow> number \<Rightarrow> number \<Rightarrow> number \<Rightarrow> number \<Rightarrow> number
     \<Rightarrow> number option \<times> number option \<times> number option" where
  "handleCalculate_power a c exposedTotal controlTotal riskExposed riskControl =
     (let alpha = Num 0.05
      in if \<not> strict_eq riskExposed riskControl then
           (let p_pooled' = p_pooled a c exposedTotal controlTotal
            in if p_pooled' > Num 0 \<and> p_pooled' < Num 1 then
                 handleCalculate_power_pooled a c exposedTotal controlTotal
                   riskExposed riskControl
               else (None, Some alpha, None))
         else (Some alpha, Some alpha, Some (Num 1 - alpha)))"

text \<open>
  The body of \<^verbatim>\<open>if (studyDesign !== 'case-control')\<close>, lines 556 to 680: when both group
  totals are positive it assigns the nine incidence-based fields, otherwise it leaves
  \<^verbatim>\<open>newResults\<close> as it is. \<open>se_rd\<close> is the source's local of line 567, as a function of
  the corrected risks and totals.
\<close>

definition se_rd :: "number \<Rightarrow> number \<Rightarrow> number \<Rightarrow> number \<Rightarrow> number" where
  "se_rd riskExposed_c riskControl_c exposedTotal_c controlTotal_c =
     Math_sqrt ((riskExposed_c * (Num 1 - riskExposed_c) / exposedTotal_c)
                + (riskControl_c * (Num 1 - riskControl_c) / controlTotal_c))"

definition handleCalculate_incidence ::
  "StudyGoal \<Rightarrow> number \<Rightarrow> number \<Rightarrow> number \<Rightarrow> number \<Rightarrow> Results \<Rightarrow> Results" where
  "handleCalculate_incidence studyGoal a b c d newResults =
     (let ca = corrected a; cb = corrected b; cc = corrected c; cd = corrected d;
          exposedTotal = a + b;
          controlTotal = c + d;
          exposedTotal_c = ca + cb;
          controlTotal_c = cc + cd
      in if exposedTotal > Num 0 \<and> controlTotal > Num 0 then
           (let riskExposed = a / exposedTotal;
                riskControl = c / controlTotal;
                riskExposed_c = ca / exposedTotal_c;
                riskControl_c = cc / controlTotal_c;
                rd = riskExposed - riskControl;
                se_rd' = se_rd riskExposed_c riskControl_c exposedTotal_c controlTotal_c;
                riskDifference' =
                  \<lparr>rd_value = rd, rd_lower = rd - Num 1.96 * se_rd',
                   rd_upper = rd + Num 1.96 * se_rd'\<rparr>;
                (power, type1Error', type2Error') =
                  handleCalculate_power a c exposedTotal controlTotal riskExposed riskControl
            in newResults
                 \<lparr>absoluteRiskExposed := Some riskExposed,
                  absoluteRiskControl := Some riskControl,
                  riskDifference := Some riskDifference',
                  impactMeasures := handleCalculate_impactMeasures studyGoal riskControl rd,
                  relativeRisk :=
                    handleCalculate_relativeRisk riskExposed riskControl
                      riskExposed_c riskControl_c ca cc,
                  nnt := handleCalculate_nnt studyGoal rd riskDifference',
                  power' := power,
                  type1Error := type1Error',
                  type2Error := type2Error'\<rparr>)
         else newResults)"

text \<open>Odds ratio, lines 683 to 696; the source's local \<^verbatim>\<open>or\<close> is written \<open>or'\<close>.\<close>

definition handleCalculate_oddsRatio ::
  "number \<Rightarrow> number \<Rightarrow> number \<Rightarrow> number \<Rightarrow> RatioEstimate option" where
  "handleCalculate_oddsRatio a b c d =
     (let ca = corrected a; cb = corrected b; cc = corrected c; cd = corrected d
      in if a \<ge> Num 0 \<and> b > Num 0 \<and> c > Num 0 \<and> d \<ge> Num 0 then
           (let or' = (ca * cd) / (cb * cc);
                ln_or = Math_log or';
                se_ln_or = Math_sqrt (Num 1 / ca + Num 1 / cb + Num 1 / cc + Num 1 / cd);
                zStat = ln_or / se_ln_or
            in Some \<lparr>ratio_value = or',
                     ratio_lower = Math_exp (ln_or - Num 1.96 * se_ln_or),
                     ratio_upper = Math_exp (ln_or + Num 1.96 * se_ln_or),
                     pValue = calculatePValueFromZ zStat,
                     zStat = zStat\<rparr>)
         else None)"

text \<open>
  The handler. It returns early with an error when no study goal or no study design is
  selected (lines 499 to 506), and when a cell is NaN or negative, the cells being tested
  in the order a, b, c, d (lines 517 to 524). Otherwise it starts from the all-null
  \<^verbatim>\<open>newResults\<close> (lines 541 to 552), runs the incidence block unless the design is
  case-control, assigns the odds ratio, and passes the result to \<^verbatim>\<open>setResults\<close>. The
  value passed to \<^verbatim>\<open>setError\<close> or to \<^verbatim>\<open>setResults\<close> is the value of the model.
\<close>

definition newResults_init :: Results where
  "newResults_init =
     \<lparr>absoluteRiskExposed = None, absoluteRiskControl = None,
      riskDifference = None, relativeRisk = None, oddsRatio = None,
      impactMeasures = None, nnt = None, power' = None,
      type1Error = None, type2Error = None\<rparr>"

definition invalidNumber :: "number \<Rightarrow> bool" where
  "invalidNumber val = (isNaN val \<or> val < Num 0)"

definition handleCalculate ::
  "StudyGoal option \<Rightarrow> StudyDesign option \<Rightarrow> number \<Rightarrow> number \<Rightarrow> number \<Rightarrow> number
     \<Rightarrow> Error + Results" where
  "handleCalculate studyGoal studyDesign a b c d =
     (case studyGoal of
        None \<Rightarrow> Inl ErrorStudyGoal
      | Some goal \<Rightarrow>
          (case studyDesign of
             None \<Rightarrow> Inl ErrorStudyDesign
           | Some design \<Rightarrow>
               if invalidNumber a then Inl (ErrorInvalidNumber ''a'')
               else if invalidNumber b then Inl (ErrorInvalidNumber ''b'')
               else if invalidNumber c then Inl (ErrorInvalidNumber ''c'')
               else if invalidNumber d then Inl (ErrorInvalidNumber ''d'')
               else
                 (let newResults = newResults_init;
                      newResults =
                        (if design \<noteq> CaseControl
                         then handleCalculate_incidence goal a b c d newResults
                         else newResults);
                      newResults = newResults\<lparr>oddsRatio := handleCalculate_oddsRatio a b c d\<rparr>
                  in Inr newResults)))"

section \<open>Evaluating the engine on a table of counts\<close>

text \<open>
  A valid table is four natural numbers; the handler sees them as the finite numbers
  \<open>Num (real a)\<close>, \<open>Num (real b)\<close>, \<open>Num (real c)\<close>, \<open>Num (real d)\<close>. The lemmas of this section
  evaluate the blocks of the handler on such a table. They are shared by the theorems of
  the next section.
\<close>

lemma invalidNumber_nat: "\<not> invalidNumber (Num (real n))"
  by (simp add: invalidNumber_def)

lemma handleCalculate_table:
  "handleCalculate (Some goal) (Some design)
     (Num (real a)) (Num (real b)) (Num (real c)) (Num (real d)) =
   Inr ((if design \<noteq> CaseControl
         then handleCalculate_incidence goal (Num (real a)) (Num (real b)) (Num (real c))
                (Num (real d)) newResults_init
         else newResults_init)
        \<lparr>oddsRatio := handleCalculate_oddsRatio (Num (real a)) (Num (real b)) (Num (real c))
                (Num (real d))\<rparr>)"
  by (simp add: handleCalculate_def Let_def invalidNumber_nat)



lemma oddsRatio_table:
  fixes a b c d :: nat
  assumes "0 < b" "0 < c"
  defines "ca \<equiv> (if a = 0 then 1 / 2 else real a)"
    and "cb \<equiv> (if b = 0 then 1 / 2 else real b)"
    and "cc \<equiv> (if c = 0 then 1 / 2 else real c)"
    and "cd \<equiv> (if d = 0 then 1 / 2 else real d)"
  defines "odds \<equiv> (ca * cd) / (cb * cc)"
    and "se \<equiv> sqrt (1 / ca + 1 / cb + 1 / cc + 1 / cd)"
  shows "handleCalculate_oddsRatio (Num (real a)) (Num (real b)) (Num (real c)) (Num (real d)) =
         Some \<lparr>ratio_value = Num odds,
               ratio_lower = Num (exp (ln odds - 1.96 * se)),
               ratio_upper = Num (exp (ln odds + 1.96 * se)),
               pValue = calculatePValueFromZ (Num (ln odds / se)),
               zStat = Num (ln odds / se)\<rparr>"
    and "0 < odds"
proof -
  have pos: "0 < ca" "0 < cb" "0 < cc" "0 < cd"
    by (simp_all add: ca_def cb_def cc_def cd_def)
  show odds_pos: "0 < odds"
    using pos by (simp add: odds_def)
  have rad: "0 < 1 / ca + 1 / cb + 1 / cc + 1 / cd"
    using pos by (simp add: add_pos_pos)
  then have se_pos: "0 < se"
    by (simp add: se_def)
  have 1: "corrected (Num (real a)) = Num ca" "corrected (Num (real b)) = Num cb"
    "corrected (Num (real c)) = Num cc" "corrected (Num (real d)) = Num cd"
    by (simp_all add: corrected_def ca_def cb_def cc_def cd_def)
  have 2: "(Num ca * Num cd) / (Num cb * Num cc) = Num odds"
    using pos by (simp add: odds_def)
  have 3: "Math_log (Num odds) = Num (ln odds)"
    using odds_pos by simp
  have 4: "Math_sqrt (Num 1 / Num ca + Num 1 / Num cb + Num 1 / Num cc + Num 1 / Num cd)
             = Num se"
    using pos rad by (simp add: se_def)
  have 5: "Num (ln odds) / Num se = Num (ln odds / se)"
    using se_pos by simp
  show "handleCalculate_oddsRatio (Num (real a)) (Num (real b)) (Num (real c)) (Num (real d)) =
         Some \<lparr>ratio_value = Num odds,
               ratio_lower = Num (exp (ln odds - 1.96 * se)),
               ratio_upper = Num (exp (ln odds + 1.96 * se)),
               pValue = calculatePValueFromZ (Num (ln odds / se)),
               zStat = Num (ln odds / se)\<rparr>"
    unfolding handleCalculate_oddsRatio_def Let_def 1 2 3 4 5
    using assms(1,2) by (simp add: minus_number_def)
qed


text \<open>
  The normal approximation at a finite argument is finite: the value of \<^verbatim>\<open>cdf\<close> in terms
  of \<open>x\<close>.
\<close>

lemma normalCDF_Num:
  fixes x :: real
  defines "z \<equiv> x / sqrt 2"
  defines "t \<equiv> 1 / (1 + 0.3275911 * \<bar>z\<bar>)"
  defines "E \<equiv> (((((1.061405429 * t + - 1.453152027) * t) + 1.421413741) * t
                  + - 0.284496736) * t + 0.254829592) * t * exp (- z * z)"
  shows "normalCDF (Num x) = Num (0.5 * (1 + (if 0 \<le> x then 1 else - 1) * (1 - E)))"
proof -
  have 1: "Num x / Math_sqrt (Num 2) = Num z"
    by (simp add: z_def)
  have d: "0 < 1 + 0.3275911 * \<bar>z\<bar>"
    by (simp add: add_pos_nonneg)
  have 2: "Num 1 / (Num 1 + Num 0.3275911 * Math_abs (Num z)) = Num t"
    using d by (simp add: t_def)
  have 3: "(Num z \<ge> Num 0) = (0 \<le> x)"
    by (simp add: z_def zero_le_divide_iff)
  show ?thesis
    unfolding normalCDF_def Let_def 1 2 3
    by (simp add: E_def minus_number_def)
qed

lemma normalCDF_zero: "normalCDF (Num 0) = Num (5000000005 / 10 ^ 10)"
  using normalCDF_Num [of 0] by simp

lemma horner_step:
  fixes u t a B :: real
  assumes "0 \<le> t" "t \<le> 1" "\<bar>u\<bar> \<le> B"
  shows "\<bar>u * t + a\<bar> \<le> B + \<bar>a\<bar>"
proof -
  have "\<bar>u * t\<bar> = \<bar>u\<bar> * t"
    using assms(1) by (simp add: abs_mult)
  also have "\<dots> \<le> \<bar>u\<bar> * 1"
    using assms(1,2) by (intro mult_left_mono) simp_all
  finally have "\<bar>u * t\<bar> \<le> B"
    using assms(3) by simp
  then show ?thesis
    by linarith
qed

text \<open>
  The value \<open>p\<close> of \<^verbatim>\<open>calculatePValueFromZ\<close> at a finite \<open>z\<close> is finite and of magnitude below
  5, far from the \<open>10 ^ 21\<close> at which \<^verbatim>\<open>toFixed\<close> changes notation.
\<close>

lemma calculatePValueFromZ_magnitude:
  fixes z :: real
  defines "t \<equiv> 1 / (1 + 0.3275911 * \<bar>\<bar>z\<bar> / sqrt 2\<bar>)"
  defines "p \<equiv> (((((1.061405429 * t + - 1.453152027) * t) + 1.421413741) * t
                  + - 0.284496736) * t + 0.254829592) * t
                * exp (- (\<bar>z\<bar> / sqrt 2) * (\<bar>z\<bar> / sqrt 2))"
  shows "Num 2 * (Num 1 - normalCDF (Math_abs (Num z))) = Num p" and "\<bar>p\<bar> < 5"
proof -
  have "normalCDF (Num \<bar>z\<bar>)
          = Num (0.5 * (1 + (if 0 \<le> \<bar>z\<bar> then 1 else - 1) * (1 - p)))"
    unfolding p_def t_def by (rule normalCDF_Num)
  then have "normalCDF (Num \<bar>z\<bar>) = Num (0.5 * (1 + (1 - p)))"
    by (simp only: abs_ge_zero if_True mult_1)
  then show "Num 2 * (Num 1 - normalCDF (Math_abs (Num z))) = Num p"
    by (simp add: minus_number_def field_simps)
  define D where "D = 1 + 0.3275911 * \<bar>\<bar>z\<bar> / sqrt 2\<bar>"
  have "1 \<le> D"
    by (simp add: D_def)
  then have "0 \<le> 1 / D" "1 / D \<le> 1"
    by simp_all
  then have t: "0 \<le> t" "t \<le> 1"
    by (simp_all only: t_def D_def)
  define e where "e = exp (- (\<bar>z\<bar> / sqrt 2) * (\<bar>z\<bar> / sqrt 2))"
  have e: "0 \<le> e" "e \<le> 1"
    by (simp_all add: e_def)
  define q where "q = ((((1.061405429 * t + - 1.453152027) * t) + 1.421413741) * t
                  + - 0.284496736) * t + 0.254829592"
  have 1: "\<bar>1.061405429 * t + - 1.453152027\<bar> \<le> 2.514557456"
    using horner_step [OF t, of "1.061405429" "1.061405429" "- 1.453152027"] by simp
  have 2: "\<bar>(1.061405429 * t + - 1.453152027) * t + 1.421413741\<bar> \<le> 3.935971197"
    using horner_step [OF t 1, of "1.421413741"] by simp
  have 3: "\<bar>((1.061405429 * t + - 1.453152027) * t + 1.421413741) * t + - 0.284496736\<bar>
             \<le> 4.220467933"
    using horner_step [OF t 2, of "- 0.284496736"] by simp
  have 4: "\<bar>q\<bar> \<le> 4.475297525"
    unfolding q_def using horner_step [OF t 3, of "0.254829592"] by simp
  have "\<bar>q * t\<bar> \<le> 4.475297525"
    using horner_step [OF t 4, of 0] by simp
  then have "\<bar>q * t * e\<bar> \<le> 4.475297525"
    using horner_step [OF e, of "q * t" "4.475297525" 0] by simp
  moreover have "p = q * t * e"
    by (simp add: p_def q_def e_def)
  ultimately show "\<bar>p\<bar> < 5"
    by simp
qed

text \<open>Decimal digits: the recursion of \<open>digits\<close> as two conditional equations.\<close>

lemma digits_small: "n < 10 \<Longrightarrow> digits n = [''0123456789'' ! n]"
  by (subst digits.simps) simp

lemma digits_large:
  "10 \<le> n \<Longrightarrow> digits n = digits (n div 10) @ [''0123456789'' ! (n mod 10)]"
  by (subst digits.simps) simp

lemma digits_chars: "set (digits n) \<subseteq> set ''0123456789''"
proof (induction n rule: digits.induct)
  case (1 n)
  have m: "n mod 10 < 10"
    by simp
  have nth: "\<And>k. k < 10 \<Longrightarrow> ''0123456789'' ! k \<in> set ''0123456789''"
    by (rule nth_mem) simp
  show ?case
  proof (cases "n < 10")
    case True
    then show ?thesis
      using nth [of n] by (simp add: digits_small)
  next
    case False
    then show ?thesis
      using 1 nth [OF m] by (simp add: digits_large)
  qed
qed

lemma toFixed_no_less_sign: "CHR ''<'' \<notin> set (toFixed f x)"
proof (cases x)
  case (Num r)
  have d: "\<And>n. CHR ''<'' \<notin> set (digits n)"
    using digits_chars by fastforce
  show ?thesis
    unfolding Num toFixed_def Let_def
    by (auto simp add: d dest: in_set_takeD in_set_dropD)
qed (simp_all add: toFixed_def)

lemma calculatePValueFromZ_zero: "calculatePValueFromZ (Num 0) = ''1.0000''"
proof -
  have "Num 2 * (Num 1 - normalCDF (Math_abs (Num 0))) = Num (999999999 / 10 ^ 9)"
    by (simp add: normalCDF_zero minus_number_def)
  moreover have "toFixed 4 (Num (999999999 / 10 ^ 9)) = ''1.0000''"
    by (simp add: toFixed_def Let_def digits_small digits_large)
  moreover have "\<not> Num (999999999 / 10 ^ 9) < Num 0.0001"
    by simp
  ultimately show ?thesis
    unfolding calculatePValueFromZ_def Let_def by (simp only: if_False)
qed

text \<open>
  Values that are not finite. An infinite Z statistic gives the string \<^verbatim>\<open><0.0001\<close>, and NaN
  prints as \<^verbatim>\<open>NaN\<close>. With no exposed cases (Scenario B of the specification) the relative
  risk is 0, its logarithm and its Z statistic are \<open>-Infinity\<close>, and both bounds are 0.
\<close>

lemma calculatePValueFromZ_infinite:
  "calculatePValueFromZ PosInfinity = ''<0.0001''"
  "calculatePValueFromZ NegInfinity = ''<0.0001''"
  "calculatePValueFromZ NaN = ''NaN''"
  by (simp_all add: calculatePValueFromZ_def normalCDF_def Let_def minus_number_def toFixed_def)

lemma relativeRisk_zero_exposed:
  "\<exists>r rr. handleCalculate (Some Undesirable) (Some Rct)
            (Num 0) (Num 100) (Num 10) (Num 90) = Inr r
       \<and> relativeRisk r = Some rr
       \<and> ratio_value rr = Num 0 \<and> ratio_lower rr = Num 0 \<and> ratio_upper rr = Num 0
       \<and> pValue rr = ''<0.0001'' \<and> zStat rr = NegInfinity"
proof -
  have "0 \<le> (1 - 1 / 201) / (1 / 2) + (1 - 1 / 10) / (10::real)"
    by simp
  then show ?thesis
    using handleCalculate_table [of Undesirable Rct 0 100 10 90]
    by (simp add: handleCalculate_incidence_def handleCalculate_relativeRisk_def Let_def
        corrected_def minus_number_def calculatePValueFromZ_infinite split: prod.splits)
qed

text \<open>The early returns of the handler.\<close>

lemma handleCalculate_errors:
  "handleCalculate None design a b c d = Inl ErrorStudyGoal"
  "handleCalculate (Some goal) None a b c d = Inl ErrorStudyDesign"
  "handleCalculate (Some goal) (Some design') NaN b c d = Inl (ErrorInvalidNumber ''a'')"
  "handleCalculate (Some goal) (Some design') (Num 1) (Num (- 1)) c d
     = Inl (ErrorInvalidNumber ''b'')"
  by (simp_all add: handleCalculate_def invalidNumber_def)

section \<open>The claims of the specification\<close>

text \<open>
  Claim C1. For every table of non-negative integers and every study goal, a case-control
  calculation succeeds and leaves absoluteRiskExposed, absoluteRiskControl, riskDifference,
  relativeRisk, impactMeasures, nnt, power, type1Error and type2Error null; only the odds
  ratio can be set.
\<close>

theorem case_control_incidence_fields_null:
  "\<exists>r. handleCalculate (Some goal) (Some CaseControl)
          (Num (real a)) (Num (real b)) (Num (real c)) (Num (real d)) = Inr r
       \<and> absoluteRiskExposed r = None \<and> absoluteRiskControl r = None
       \<and> riskDifference r = None \<and> relativeRisk r = None \<and> impactMeasures r = None
       \<and> nnt r = None \<and> power' r = None \<and> type1Error r = None \<and> type2Error r = None"
  by (simp add: handleCalculate_table newResults_init_def)

text \<open>Scenario C of the specification: a = 10, b = 20, c = 10, d = 20, goal desirable.\<close>

theorem case_control_incidence_fields_null_witness:
  "\<exists>r. handleCalculate (Some Desirable) (Some CaseControl)
          (Num 10) (Num 20) (Num 10) (Num 20) = Inr r
       \<and> absoluteRiskExposed r = None \<and> absoluteRiskControl r = None
       \<and> riskDifference r = None \<and> relativeRisk r = None \<and> impactMeasures r = None
       \<and> nnt r = None \<and> power' r = None \<and> type1Error r = None \<and> type2Error r = None"
  using case_control_incidence_fields_null [of Desirable 10 20 10 20] by simp







text \<open>
  Claim C5. For every table with \<open>b > 0\<close> and \<open>c > 0\<close> and every goal, any two study designs
  (case-control included) give the same oddsRatio field, and it is set: the odds ratio
  does not depend on the design.
\<close>

theorem odds_ratio_independent_of_design:
  fixes a b c d :: nat
  assumes "0 < b" "0 < c"
  shows "\<exists>r1 r2 e.
           handleCalculate (Some goal) (Some design1)
             (Num (real a)) (Num (real b)) (Num (real c)) (Num (real d)) = Inr r1
         \<and> handleCalculate (Some goal) (Some design2)
             (Num (real a)) (Num (real b)) (Num (real c)) (Num (real d)) = Inr r2
         \<and> oddsRatio r1 = Some e \<and> oddsRatio r2 = Some e"
proof -
  obtain e where
    "handleCalculate_oddsRatio (Num (real a)) (Num (real b)) (Num (real c)) (Num (real d))
       = Some e"
    using oddsRatio_table(1) [OF assms] by blast
  then show ?thesis
    unfolding handleCalculate_table by simp
qed

text \<open>Scenario C against a randomised trial on the same table.\<close>

theorem odds_ratio_independent_of_design_witness:
  "\<exists>r1 r2 e.
       handleCalculate (Some Desirable) (Some CaseControl)
         (Num 10) (Num 20) (Num 10) (Num 20) = Inr r1
     \<and> handleCalculate (Some Desirable) (Some Rct)
         (Num 10) (Num 20) (Num 10) (Num 20) = Inr r2
     \<and> oddsRatio r1 = Some e \<and> oddsRatio r2 = Some e"
  using odds_ratio_independent_of_design [of 20 10 Desirable CaseControl 10 20 Rct]
  by simp





text \<open>
  Claim C8. For every real \<open>z\<close>, \<^verbatim>\<open>calculatePValueFromZ\<close> computes
  \<open>p = 2 * (1 - cdf |z|)\<close>, a finite number, and returns the string \<^verbatim>\<open><0.0001\<close> exactly when
  \<open>p < 0.0001\<close> and otherwise \<open>p\<close> in fixed notation with 4 decimals; the result is the same
  for \<open>z\<close> and \<open>- z\<close>, and at 0 it is \<^verbatim>\<open>1.0000\<close>.
\<close>

theorem calculatePValueFromZ_spec:
  "\<exists>p. Num 2 * (Num 1 - normalCDF (Math_abs (Num z))) = Num p
      \<and> calculatePValueFromZ (Num z) = (if p < 0.0001 then ''<0.0001'' else toFixed 4 (Num p))
      \<and> (calculatePValueFromZ (Num z) = ''<0.0001'') = (p < 0.0001)
      \<and> calculatePValueFromZ (Num (- z)) = calculatePValueFromZ (Num z)
      \<and> calculatePValueFromZ (Num 0) = ''1.0000''"
proof -
  obtain p where p: "Num 2 * (Num 1 - normalCDF (Math_abs (Num z))) = Num p"
    using calculatePValueFromZ_magnitude(1) by blast
  have 1: "calculatePValueFromZ (Num z)
             = (if p < 0.0001 then ''<0.0001'' else toFixed 4 (Num p))"
    using p by (simp add: calculatePValueFromZ_def Let_def)
  have "toFixed 4 (Num p) \<noteq> ''<0.0001''"
    using toFixed_no_less_sign [of 4 "Num p"] by auto
  then have 2: "(calculatePValueFromZ (Num z) = ''<0.0001'') = (p < 0.0001)"
    unfolding 1 by simp
  have 3: "calculatePValueFromZ (Num (- z)) = calculatePValueFromZ (Num z)"
    by (simp add: calculatePValueFromZ_def)
  show ?thesis
    using p 1 2 3 calculatePValueFromZ_zero by blast
qed

text \<open>At \<open>z = 0\<close> the value \<open>p\<close> is 0.999999999, printed as \<^verbatim>\<open>1.0000\<close>.\<close>

theorem calculatePValueFromZ_spec_witness:
  "\<exists>p. Num 2 * (Num 1 - normalCDF (Math_abs (Num 0))) = Num p
      \<and> calculatePValueFromZ (Num 0) = (if p < 0.0001 then ''<0.0001'' else toFixed 4 (Num p))
      \<and> (calculatePValueFromZ (Num 0) = ''<0.0001'') = (p < 0.0001)
      \<and> calculatePValueFromZ (Num (- 0)) = calculatePValueFromZ (Num 0)
      \<and> calculatePValueFromZ (Num 0) = ''1.0000''"
  using calculatePValueFromZ_spec [of 0] by blast

text \<open>
  Claim C9. For every finite real \<open>x\<close>, \<^verbatim>\<open>normalCDF\<close> is finite at \<open>x\<close> and at \<open>- x\<close>, and
  \<open>cdf (- x)\<close> and \<open>1 - cdf x\<close> differ by at most \<open>10 ^ - 6\<close>; \<open>cdf 0\<close> and 0.5 differ by at
  most \<open>10 ^ - 6\<close>.
\<close>

theorem normalCDF_reflection:
  "\<exists>y y' y0. normalCDF (Num x) = Num y \<and> normalCDF (Num (- x)) = Num y'
      \<and> \<bar>y' - (1 - y)\<bar> \<le> 1 / 10 ^ 6
      \<and> normalCDF (Num 0) = Num y0 \<and> \<bar>y0 - 1 / 2\<bar> \<le> 1 / 10 ^ 6"
proof -
  have z: "\<bar>5000000005 / 10 ^ 10 - 1 / 2\<bar> \<le> (1::real) / 10 ^ 6"
    by simp
  show ?thesis
  proof (cases "x = 0")
    case True
    have "\<bar>5000000005 / 10 ^ 10 - (1 - 5000000005 / 10 ^ 10)\<bar> \<le> (1::real) / 10 ^ 6"
      by simp
    with z show ?thesis
      unfolding True minus_zero normalCDF_zero by blast
  next
    case False
    define t where "t = 1 / (1 + 0.3275911 * \<bar>x / sqrt 2\<bar>)"
    define E where "E = (((((1.061405429 * t + - 1.453152027) * t) + 1.421413741) * t
                  + - 0.284496736) * t + 0.254829592) * t * exp (- (x / sqrt 2) * (x / sqrt 2))"
    define y where "y = 0.5 * (1 + (if 0 \<le> x then 1 else - 1) * (1 - E))"
    define y' where "y' = 0.5 * (1 + (if 0 \<le> - x then 1 else - 1) * (1 - E))"
    have a: "normalCDF (Num x) = Num y"
      unfolding y_def E_def t_def by (rule normalCDF_Num)
    have b: "normalCDF (Num (- x)) = Num y'"
      using normalCDF_Num [of "- x"] unfolding y'_def E_def t_def by simp
    have "y' - (1 - y) = 0"
      unfolding y_def y'_def using False by (cases "0 \<le> x") (simp_all add: field_simps)
    then have c: "\<bar>y' - (1 - y)\<bar> \<le> 1 / 10 ^ 6"
      by simp
    show ?thesis
      unfolding a b normalCDF_zero using c z by blast
  qed
qed

text \<open>At \<open>x = 0\<close> the approximation gives 0.5000000005 on both sides.\<close>

theorem normalCDF_reflection_witness:
  "\<exists>y y' y0. normalCDF (Num 0) = Num y \<and> normalCDF (Num (- 0)) = Num y'
      \<and> \<bar>y' - (1 - y)\<bar> \<le> 1 / 10 ^ 6
      \<and> normalCDF (Num 0) = Num y0 \<and> \<bar>y0 - 1 / 2\<bar> \<le> 1 / 10 ^ 6"
  using normalCDF_reflection [of 0] by blast



end
